theory Spec2Isabelle
  imports Complex_Main "HOL-Library.List_Lexorder" "HOL-Library.Char_ord"
begin

section \<open>Floating-point cells\<close>

text \<open>
  A float cell of a pandas column is a real number or NaN. \<open>None\<close> is NaN; finite values
  are idealised as reals (no rounding, no infinities). Arithmetic with NaN gives NaN and
  every ordering comparison with NaN is false, as in IEEE 754.
\<close>

type_synonym float = "real option"

fun fadd :: "float \<Rightarrow> float \<Rightarrow> float" where
  "fadd (Some x) (Some y) = Some (x + y)"
| "fadd _ _ = None"

fun fsub :: "float \<Rightarrow> float \<Rightarrow> float" where
  "fsub (Some x) (Some y) = Some (x - y)"
| "fsub _ _ = None"

fun fmul :: "float \<Rightarrow> float \<Rightarrow> float" where
  "fmul (Some x) (Some y) = Some (x * y)"
| "fmul _ _ = None"

fun fgt :: "float \<Rightarrow> float \<Rightarrow> bool" where
  "fgt (Some x) (Some y) = (x > y)"
| "fgt _ _ = False"

fun flt :: "float \<Rightarrow> float \<Rightarrow> bool" where
  "flt (Some x) (Some y) = (x < y)"
| "flt _ _ = False"

section \<open>Series aggregations (pandas)\<close>

text \<open>
  \<open>Series.mean()\<close>, \<open>Series.std()\<close> (sample standard deviation, \<open>ddof = 1\<close>),
  \<open>Series.min()\<close> and \<open>Series.max()\<close> of a float series without missing values.
  The mean, minimum and maximum of an empty series are NaN; the standard deviation of
  fewer than two observations is NaN. None of them raises.
\<close>

definition series_mean :: "real list \<Rightarrow> float" where
  "series_mean xs = (if xs = [] then None else Some (sum_list xs / real (length xs)))"

definition sum_sq_dev :: "real list \<Rightarrow> real" where
  "sum_sq_dev xs = sum_list (map (\<lambda>x. (x - sum_list xs / real (length xs))\<^sup>2) xs)"

definition series_std :: "real list \<Rightarrow> float" where
  "series_std xs =
     (if length xs < 2 then None
      else Some (sqrt (sum_sq_dev xs / real (length xs - 1))))"

fun series_min :: "real list \<Rightarrow> float" where
  "series_min [] = None"
| "series_min (x # xs) = Some (fold min xs x)"

fun series_max :: "real list \<Rightarrow> float" where
  "series_max [] = None"
| "series_max (x # xs) = Some (fold max xs x)"

section \<open>Rolling windows\<close>

text \<open>
  \<open>x.rolling(window=w, min_periods=p)\<close>: at position \<open>j\<close> the window holds the
  positions \<open>j - w + 1 .. j\<close> that exist; the aggregate is NaN when the window holds fewer
  than \<open>p\<close> observations.
\<close>

definition window :: "nat \<Rightarrow> 'a list \<Rightarrow> nat \<Rightarrow> 'a list" where
  "window w xs j = drop (Suc j - w) (take (Suc j) xs)"

definition rolling :: "nat \<Rightarrow> nat \<Rightarrow> (real list \<Rightarrow> float) \<Rightarrow> real list \<Rightarrow> float list" where
  "rolling w min_periods agg xs =
     map (\<lambda>j. if length (window w xs j) < min_periods then None else agg (window w xs j))
       [0..<length xs]"

section \<open>Group-by\<close>

text \<open>
  \<open>df.groupby(key)[col]\<close> splits the rows by key; every group keeps the original row
  order, and the groups are visited in sorted key order. \<open>transform f\<close> applies \<open>f\<close> to
  the values of each group and writes the results back at the rows of the group;
  \<open>agg\<close> yields one entry per group.
\<close>

definition group_keys :: "'k::linorder list \<Rightarrow> 'k list" where
  "group_keys keys = sort (remdups keys)"

definition group_indices :: "'k list \<Rightarrow> 'k \<Rightarrow> nat list" where
  "group_indices keys k = filter (\<lambda>i. keys ! i = k) [0..<length keys]"

definition group_values :: "'k list \<Rightarrow> 'a list \<Rightarrow> 'k \<Rightarrow> 'a list" where
  "group_values keys vals k = map ((!) vals) (group_indices keys k)"

fun scatter :: "nat list \<Rightarrow> 'b list \<Rightarrow> 'b list \<Rightarrow> 'b list" where
  "scatter (i # is) (v # vs) out = scatter is vs (out[i := v])"
| "scatter _ _ out = out"

definition groupby_transform ::
  "(real list \<Rightarrow> float list) \<Rightarrow> 'k::linorder list \<Rightarrow> real list \<Rightarrow> float list" where
  "groupby_transform f keys vals =
     fold (\<lambda>k out. scatter (group_indices keys k) (f (group_values keys vals k)) out)
       (group_keys keys) (replicate (length keys) None)"

definition groupby_agg ::
  "(real list \<Rightarrow> 'b) \<Rightarrow> 'k::linorder list \<Rightarrow> real list \<Rightarrow> ('k \<times> 'b) list" where
  "groupby_agg agg keys vals = map (\<lambda>k. (k, agg (group_values keys vals k))) (group_keys keys)"

section \<open>The data frame\<close>

text \<open>
  One row of the city's frame has the four columns the analysis reads. Columns added
  later (and any further column of the uploaded file) are kept by name, in column order.
  Timestamps are the numeric value of the \<open>datetime64\<close> instant.
\<close>

record observation =
  timestamp :: int
  city :: string
  temperature :: real
  season :: string

datatype column = FloatCol "float list" | BoolCol "bool list"

record frame =
  rows :: "observation list"
  extra :: "(string \<times> column) list"

text \<open>\<open>df[name] = col\<close>: replaces the column of that name in place, or appends it.\<close>

fun set_column :: "string \<Rightarrow> column \<Rightarrow> (string \<times> column) list \<Rightarrow> (string \<times> column) list" where
  "set_column name col [] = [(name, col)]"
| "set_column name col ((n, c) # cs) =
     (if n = name then (n, col) # cs else (n, c) # set_column name col cs)"

definition assign :: "string \<Rightarrow> column \<Rightarrow> frame \<Rightarrow> frame" where
  "assign name col df = df\<lparr>extra := set_column name col (extra df)\<rparr>"

section \<open>Errors\<close>

datatype error = ValueError | KeyError string

section \<open>Trend: ordinary least squares with one predictor\<close>

text \<open>
  \<open>LinearRegression().fit(X, y).coef_[0]\<close> with the default intercept: the library
  rejects an empty sample with a \<open>ValueError\<close>; otherwise it centres both variables and
  returns the least-squares solution of minimum norm, which is \<open>0\<close> when the centred
  predictor is all zeros. The slope is the one of exact arithmetic: the library computes
  in double precision, so the number it returns can differ from this one by rounding, and
  only whether the fit fails or returns is independent of that.
\<close>

definition sxx :: "real list \<Rightarrow> real" where
  "sxx xs = sum_list (map (\<lambda>x. (x - sum_list xs / real (length xs))\<^sup>2) xs)"

definition sxy :: "real list \<Rightarrow> real list \<Rightarrow> real" where
  "sxy xs ys =
     sum_list (map (\<lambda>(x, y). (x - sum_list xs / real (length xs)) *
                              (y - sum_list ys / real (length ys))) (zip xs ys))"

definition linear_regression_coef :: "real list \<Rightarrow> real list \<Rightarrow> error + real" where
  "linear_regression_coef xs ys =
     (if xs = [] then Inl ValueError
      else Inr (if sxx xs = 0 then 0 else sxy xs ys / sxx xs))"

section \<open>analyze_city_temperature\<close>

record analysis =
  result_city :: string
  average_temperature :: float
  min_temperature :: float
  max_temperature :: float
  season_profile :: "(string \<times> float \<times> float) list"
  trend :: real
  rolling_mean :: "(int \<times> float) list"
  rolling_std :: "(int \<times> float) list"
  anomalies :: "(int \<times> real) list"

text \<open>The row-wise rule of lines 81-85, on one row's temperature and rolling statistics.\<close>

definition is_anomaly :: "real \<Rightarrow> float \<Rightarrow> float \<Rightarrow> bool" where
  "is_anomaly t rm rs =
     (fgt (Some t) (fadd rm (fmul (Some 2) rs)) \<or> flt (Some t) (fsub rm (fmul (Some 2) rs)))"

definition rolling_mean_column :: "observation list \<Rightarrow> float list" where
  "rolling_mean_column rs =
     groupby_transform (rolling 30 1 series_mean) (map season rs) (map temperature rs)"

definition rolling_std_column :: "observation list \<Rightarrow> float list" where
  "rolling_std_column rs =
     groupby_transform (rolling 30 1 series_std) (map season rs) (map temperature rs)"

definition anomaly_column :: "observation list \<Rightarrow> bool list" where
  "anomaly_column rs =
     map (\<lambda>(r, rm, rsd). is_anomaly (temperature r) rm rsd)
       (zip rs (zip (rolling_mean_column rs) (rolling_std_column rs)))"

definition compute_profile :: "observation list \<Rightarrow> (string \<times> float \<times> float) list" where
  "compute_profile rs =
     groupby_agg (\<lambda>g. (series_mean g, series_std g)) (map season rs) (map temperature rs)"

definition compute_basic_stats :: "observation list \<Rightarrow> float \<times> float \<times> float" where
  "compute_basic_stats rs =
     (series_mean (map temperature rs), series_min (map temperature rs),
      series_max (map temperature rs))"

definition compute_trend :: "observation list \<Rightarrow> error + real" where
  "compute_trend rs =
     linear_regression_coef (map (\<lambda>r. real_of_int (timestamp r)) rs) (map temperature rs)"

text \<open>
  The analyzer takes the caller's frame and returns the result together with the frame as
  the call leaves it: the three assignments of lines 73-85 write into the frame it was
  given. An exception of the regression library ends the call.
\<close>

definition analyze_city_temperature :: "frame \<Rightarrow> string \<Rightarrow> error + (analysis \<times> frame)" where
  "analyze_city_temperature city_df selected_city =
     (let rs = rows city_df;
          df1 = assign ''rolling_mean'' (FloatCol (rolling_mean_column rs)) city_df;
          df2 = assign ''rolling_std'' (FloatCol (rolling_std_column rs)) df1;
          df3 = assign ''anomaly'' (BoolCol (anomaly_column rs)) df2;
          profile = compute_profile rs;
          (avg_temp, min_temp, max_temp) = compute_basic_stats rs;
          anoms = map fst (filter snd (zip rs (anomaly_column rs)))
      in case compute_trend rs of
           Inl e \<Rightarrow> Inl e
         | Inr coef \<Rightarrow>
             Inr (\<lparr>result_city = selected_city,
                   average_temperature = avg_temp,
                   min_temperature = min_temp,
                   max_temperature = max_temp,
                   season_profile = profile,
                   trend = coef,
                   rolling_mean = zip (map timestamp rs) (rolling_mean_column rs),
                   rolling_std = zip (map timestamp rs) (rolling_std_column rs),
                   anomalies = map (\<lambda>r. (timestamp r, temperature r)) anoms\<rparr>, df3))"

section \<open>Double precision\<close>

text \<open>
  The check of a live reading (app.py lines 93-95) computes in binary64. A double is a
  finite value, an infinity or NaN; the sign of a zero is not kept, since no operation
  used here depends on it. \<open>round64\<close> rounds a real result to the nearest double, ties to
  the even significand: 53 significant bits, a fixed spacing of \<open>2 ^ - 1074\<close> below
  \<open>2 ^ - 1022\<close>, and infinity once the rounded magnitude reaches \<open>2 ^ 1024\<close>.
\<close>

datatype f64 = Finite real | PosInf | NegInf | NaN

definition round_half_even :: "real \<Rightarrow> int" where
  "round_half_even y =
     (if y - of_int \<lfloor>y\<rfloor> < 1 / 2 then \<lfloor>y\<rfloor>
      else if y - of_int \<lfloor>y\<rfloor> > 1 / 2 then \<lfloor>y\<rfloor> + 1
      else if even \<lfloor>y\<rfloor> then \<lfloor>y\<rfloor> else \<lfloor>y\<rfloor> + 1)"

definition exponent64 :: "real \<Rightarrow> int" where
  "exponent64 x = max \<lfloor>log 2 \<bar>x\<bar>\<rfloor> (- 1022)"

definition ulp64 :: "real \<Rightarrow> real" where
  "ulp64 x = 2 powr real_of_int (exponent64 x - 52)"

definition nearest64 :: "real \<Rightarrow> real" where
  "nearest64 x = (if x = 0 then 0 else real_of_int (round_half_even (x / ulp64 x)) * ulp64 x)"

definition round64 :: "real \<Rightarrow> f64" where
  "round64 x =
     (if 2 ^ 1024 \<le> nearest64 x then PosInf
      else if nearest64 x \<le> - (2 ^ 1024) then NegInf
      else Finite (nearest64 x))"

text \<open>
  Addition, subtraction and multiplication round the exact result; an infinity keeps its
  sign, and \<open>inf - inf\<close> and \<open>0 * inf\<close> are NaN. Every comparison with NaN is false.
\<close>

fun f64_le :: "f64 \<Rightarrow> f64 \<Rightarrow> bool" where
  "f64_le NaN _ = False"
| "f64_le _ NaN = False"
| "f64_le NegInf _ = True"
| "f64_le _ PosInf = True"
| "f64_le (Finite x) (Finite y) = (x \<le> y)"
| "f64_le _ _ = False"

fun f64_neg :: "f64 \<Rightarrow> f64" where
  "f64_neg (Finite x) = Finite (- x)"
| "f64_neg PosInf = NegInf"
| "f64_neg NegInf = PosInf"
| "f64_neg NaN = NaN"

fun f64_add :: "f64 \<Rightarrow> f64 \<Rightarrow> f64" where
  "f64_add NaN _ = NaN"
| "f64_add _ NaN = NaN"
| "f64_add (Finite x) (Finite y) = round64 (x + y)"
| "f64_add PosInf NegInf = NaN"
| "f64_add NegInf PosInf = NaN"
| "f64_add PosInf _ = PosInf"
| "f64_add NegInf _ = NegInf"
| "f64_add _ PosInf = PosInf"
| "f64_add _ NegInf = NegInf"

definition f64_sub :: "f64 \<Rightarrow> f64 \<Rightarrow> f64" where
  "f64_sub a b = f64_add a (f64_neg b)"

fun f64_sign :: "f64 \<Rightarrow> real" where
  "f64_sign (Finite x) = sgn x"
| "f64_sign PosInf = 1"
| "f64_sign NegInf = - 1"
| "f64_sign NaN = 0"

fun f64_mul :: "f64 \<Rightarrow> f64 \<Rightarrow> f64" where
  "f64_mul NaN _ = NaN"
| "f64_mul _ NaN = NaN"
| "f64_mul (Finite x) (Finite y) = round64 (x * y)"
| "f64_mul a b =
     (if f64_sign a * f64_sign b = 0 then NaN
      else if 0 < f64_sign a * f64_sign b then PosInf else NegInf)"

text \<open>\<open>a < b\<close> on doubles.\<close>

definition f64_less :: "f64 \<Rightarrow> f64 \<Rightarrow> bool" where
  "f64_less a b = (f64_le a b \<and> \<not> f64_le b a)"

section \<open>The caller's use of the result (app.py)\<close>

text \<open>Lines 39-44: the branch on the sign of the trend, with the message each arm writes.\<close>

datatype trend_message = Trend_positive | Trend_zero | Trend_negative

definition trend_branch :: "real \<Rightarrow> trend_message" where
  "trend_branch tr =
     (if tr > 0 then Trend_positive
      else if tr > 0 then Trend_zero
      else Trend_negative)"

text \<open>Lines 83-88: the calendar month of the current date selects the season label.\<close>

definition season_map :: "(nat \<times> string) list" where
  "season_map =
     [(12, ''winter''), (1, ''winter''), (2, ''winter''),
      (3, ''spring''), (4, ''spring''), (5, ''spring''),
      (6, ''summer''), (7, ''summer''), (8, ''summer''),
      (9, ''autumn''), (10, ''autumn''), (11, ''autumn'')]"

text \<open>
  Lines 89-95 for a numeric reading: \<open>season_profile.loc[current_season]\<close> raises
  \<open>KeyError\<close> with the label when the profile has no such row; otherwise the bounds and
  the verdict are computed from the row in double precision. The profile is the frame as
  the script holds it, one row of two doubles per label. \<open>lower <= t <= upper\<close> is the
  conjunction of the two comparisons.
\<close>

record reading_check =
  mean_temp :: f64
  std_temp :: f64
  lower_bound :: f64
  upper_bound :: f64
  is_normal :: bool

definition check_current_reading ::
  "f64 \<Rightarrow> (string \<times> f64 \<times> f64) list \<Rightarrow> string \<Rightarrow> error + reading_check" where
  "check_current_reading current_temp profile current_season =
     (case map_of profile current_season of
        None \<Rightarrow> Inl (KeyError current_season)
      | Some (m, s) \<Rightarrow>
          (let lower = f64_sub m (f64_mul (Finite 2) s);
               upper = f64_add m (f64_mul (Finite 2) s)
           in Inr \<lparr>mean_temp = m, std_temp = s, lower_bound = lower, upper_bound = upper,
                   is_normal = (f64_le lower current_temp \<and> f64_le current_temp upper)\<rparr>))"

section \<open>get_current_temperature\<close>

text \<open>
  Python values as far as the function handles them: what \<open>response.json()\<close> can yield
  and the dictionaries the function builds itself. A dictionary is the list of its items,
  each key once.
\<close>

datatype pyval =
    PNone
  | PBool bool
  | PInt int
  | PFloat real
  | PStr string
  | PList "pyval list"
  | PDict "(string \<times> pyval) list"

text \<open>An exception, as far as the handler uses it: the text \<open>str(e)\<close>.\<close>

datatype py_exception = PyException (message: string)

text \<open>
  What the network gives for one request: \<open>requests.get\<close> raises, or there is a response
  with a status code whose body either parses as JSON or makes \<open>response.json()\<close> raise.
\<close>

datatype body = NotJson py_exception | Json pyval

datatype http_outcome = RequestFails py_exception | Response int body

text \<open>\<open>repr\<close> of a plain string: the string in single quotes.\<close>

definition py_repr :: "string \<Rightarrow> string" where
  "py_repr s = CHR 0x27 # s @ [CHR 0x27]"

text \<open>
  \<open>v[key]\<close> for a string key: only a dictionary holding the key has a value; a missing
  key raises \<open>KeyError\<close>, any other value raises \<open>TypeError\<close>.
\<close>

fun subscript :: "pyval \<Rightarrow> string \<Rightarrow> py_exception + pyval" where
  "subscript (PDict kvs) k =
     (case map_of kvs k of
        None \<Rightarrow> Inl (PyException (py_repr k))
      | Some v \<Rightarrow> Inr v)"
| "subscript (PList _) k = Inl (PyException ''list indices must be integers or slices, not str'')"
| "subscript (PStr _) k = Inl (PyException (''string indices must be integers, not '' @ py_repr ''str''))"
| "subscript PNone k = Inl (PyException (py_repr ''NoneType'' @ '' object is not subscriptable''))"
| "subscript (PBool _) k = Inl (PyException (py_repr ''bool'' @ '' object is not subscriptable''))"
| "subscript (PInt _) k = Inl (PyException (py_repr ''int'' @ '' object is not subscriptable''))"
| "subscript (PFloat _) k = Inl (PyException (py_repr ''float'' @ '' object is not subscriptable''))"

definition invalid_key_dict :: pyval where
  "invalid_key_dict =
     PDict [(''cod'', PStr ''401''),
            (''message'', PStr ''Invalid API key. Please see https://openweathermap.org/faq#error401 for more info.'')]"

definition error_dict :: "string \<Rightarrow> pyval" where
  "error_dict msg = PDict [(''error'', PStr msg)]"

text \<open>
  The body of the \<open>try\<close> block (lines 28-39): it raises, returns a value, or falls
  through (\<open>None\<close>) to the statement after the handler.
\<close>

definition try_block ::
  "(string \<Rightarrow> (string \<times> string) list \<Rightarrow> http_outcome) \<Rightarrow> string \<Rightarrow> string
     \<Rightarrow> py_exception + pyval option" where
  "try_block requests_get city_name api_key_current =
     (case requests_get ''http://api.openweathermap.org/data/2.5/weather''
             [(''q'', city_name), (''appid'', api_key_current), (''units'', ''metric'')] of
        RequestFails e \<Rightarrow> Inl e
      | Response status_code b \<Rightarrow>
          (case b of
             NotJson e \<Rightarrow> Inl e
           | Json data \<Rightarrow>
               if status_code = 401 then Inr (Some invalid_key_dict)
               else if status_code = 200 then
                 (case subscript data ''main'' of
                    Inl e \<Rightarrow> Inl e
                  | Inr m \<Rightarrow>
                      (case subscript m ''temp'' of
                         Inl e \<Rightarrow> Inl e
                       | Inr t \<Rightarrow> Inr (Some t)))
               else Inr None))"

text \<open>
  The whole function: \<open>except Exception as e\<close> turns every exception of the block into
  a dictionary; the result is \<open>Inl\<close> only if an exception leaves the function.
\<close>

definition get_current_temperature ::
  "(string \<Rightarrow> (string \<times> string) list \<Rightarrow> http_outcome) \<Rightarrow> string \<Rightarrow> string
     \<Rightarrow> py_exception + pyval" where
  "get_current_temperature requests_get city_name api_key_current =
     (case try_block requests_get city_name api_key_current of
        Inl e \<Rightarrow> Inr (error_dict (message e))
      | Inr (Some v) \<Rightarrow> Inr v
      | Inr None \<Rightarrow> Inr (error_dict ''Unexpected error occurred.''))"

text \<open>\<open>isinstance(v, dict)\<close>, the caller's test for failure (app.py line 77).\<close>

fun is_dict :: "pyval \<Rightarrow> bool" where
  "is_dict (PDict _) = True"
| "is_dict _ = False"

fun is_number :: "pyval \<Rightarrow> bool" where
  "is_number (PInt _) = True"
| "is_number (PFloat _) = True"
| "is_number _ = False"

section \<open>The current-temperature part of the script (app.py lines 75-104)\<close>

text \<open>
  The value of \<open>current_temp\<close> as line 77 tells it apart: a dictionary, which stands for
  any failure of the request, or else a number, held as a double. Other values that
  \<open>get_current_temperature\<close> can pass on from a response (a string, a list) are left out.
\<close>

datatype fetched = Failure_dict pyval | Temperature f64

text \<open>
  What a run of this part ends with. It either finishes, having shown the error
  dictionary (\<open>st.error\<close>, line 78) or the range with the verdict (\<open>st.success\<close> or
  \<open>st.warning\<close>, lines 101-104), or an exception leaves the script: app.py has no handler,
  so the run stops there and nothing after the raising line is executed.
\<close>

datatype display = St_error pyval | St_success reading_check | St_warning reading_check

datatype script_run = Finished display | Aborted error

text \<open>The decimal numeral of a number, for the key of a failed \<open>season_map[month]\<close>.\<close>

fun decimal :: "nat \<Rightarrow> string" where
  "decimal n =
     (if n < 10 then [char_of (48 + n)]
      else decimal (n div 10) @ [char_of (48 + n mod 10)])"

declare decimal.simps [simp del]

definition current_temperature_section ::
  "fetched \<Rightarrow> nat \<Rightarrow> (string \<times> f64 \<times> f64) list \<Rightarrow> script_run" where
  "current_temperature_section current_temp month profile =
     (case current_temp of
        Failure_dict d \<Rightarrow> Finished (St_error d)
      | Temperature t \<Rightarrow>
          (case map_of season_map month of
             None \<Rightarrow> Aborted (KeyError (decimal month))
           | Some current_season \<Rightarrow>
               (case check_current_reading t profile current_season of
                  Inl e \<Rightarrow> Aborted e
                | Inr chk \<Rightarrow>
                    Finished (if is_normal chk then St_success chk else St_warning chk))))"

section \<open>The rolling statistics as the specification words them\<close>

text \<open>
  For the record at row \<open>i\<close>: its season partition is the rows up to and including \<open>i\<close>
  that carry the same season label, in row order; the trailing window is the last 30 of
  them, or all of them when there are fewer.
\<close>

definition spec_partition :: "observation list \<Rightarrow> nat \<Rightarrow> real list" where
  "spec_partition rs i =
     map temperature (filter (\<lambda>r. season r = season (rs ! i)) (take (Suc i) rs))"

definition spec_window :: "observation list \<Rightarrow> nat \<Rightarrow> real list" where
  "spec_window rs i = drop (length (spec_partition rs i) - 30) (spec_partition rs i)"

definition spec_anomalous :: "observation list \<Rightarrow> nat \<Rightarrow> bool" where
  "spec_anomalous rs i =
     (case (series_mean (spec_window rs i), series_std (spec_window rs i)) of
        (Some mu, Some sigma) \<Rightarrow>
          temperature (rs ! i) > mu + 2 * sigma \<or> temperature (rs ! i) < mu - 2 * sigma
      | _ \<Rightarrow> False)"

section \<open>Group-by and rolling windows: the transform row by row\<close>

lemma length_scatter [simp]: "length (scatter idxs vs out) = length out"
  by (induction idxs vs out rule: scatter.induct) auto

lemma scatter_other: "i \<notin> set idxs \<Longrightarrow> scatter idxs vs out ! i = out ! i"
  by (induction idxs vs out rule: scatter.induct) auto

lemma scatter_nth:
  "distinct idxs \<Longrightarrow> length vs = length idxs \<Longrightarrow> j < length idxs \<Longrightarrow> idxs ! j < length out
   \<Longrightarrow> scatter idxs vs out ! (idxs ! j) = vs ! j"
proof (induction idxs vs out arbitrary: j rule: scatter.induct)
  case (1 i "is" v vs out)
  show ?case
  proof (cases j)
    case 0
    then show ?thesis using 1 by (simp add: scatter_other)
  next
    case (Suc j')
    then show ?thesis using 1 by simp
  qed
qed auto

lemma distinct_group_indices: "distinct (group_indices keys k)"
  by (simp add: group_indices_def)

lemma set_group_indices: "set (group_indices keys k) = {i. i < length keys \<and> keys ! i = k}"
  by (auto simp: group_indices_def)

lemma length_group_values: "length (group_values keys vals k) = length (group_indices keys k)"
  by (simp add: group_values_def)

lemma fold_scatter_groups:
  assumes len: "\<And>g. length (f g) = length g"
  shows "distinct ks \<Longrightarrow> k \<in> set ks \<Longrightarrow> j < length (group_indices keys k) \<Longrightarrow> length out = length keys
    \<Longrightarrow> fold (\<lambda>k out. scatter (group_indices keys k) (f (group_values keys vals k)) out) ks out
          ! (group_indices keys k ! j) = f (group_values keys vals k) ! j"
proof (induction ks arbitrary: out)
  case Nil
  then show ?case by simp
next
  case (Cons a ks)
  let ?step = "\<lambda>k out. scatter (group_indices keys k) (f (group_values keys vals k)) out"
  have mem: "group_indices keys k ! j \<in> set (group_indices keys k)"
    using Cons.prems(3) by simp
  then have lt: "group_indices keys k ! j < length keys" and key: "keys ! (group_indices keys k ! j) = k"
    by (auto simp: set_group_indices)
  show ?case
  proof (cases "k \<in> set ks")
    case True
    then show ?thesis using Cons by simp
  next
    case False
    then have ak: "a = k" using Cons.prems(2) by simp
    have other: "\<And>out'. length out' = length keys \<Longrightarrow> fold ?step ks out' ! (group_indices keys k ! j) = out' ! (group_indices keys k ! j)"
      using False
    proof (induction ks)
      case Nil
      then show ?case by simp
    next
      case (Cons b ks)
      have "group_indices keys k ! j \<notin> set (group_indices keys b)"
        using Cons.prems(2) key by (auto simp: set_group_indices)
      then show ?case using Cons by (simp add: scatter_other)
    qed
    have "fold ?step (a # ks) out ! (group_indices keys k ! j) = ?step k out ! (group_indices keys k ! j)"
      using other[of "?step k out"] Cons.prems(4) ak by simp
    also have "\<dots> = f (group_values keys vals k) ! j"
      using scatter_nth[of "group_indices keys k" "f (group_values keys vals k)" j out]
        Cons.prems(3,4) lt
      by (simp add: distinct_group_indices len length_group_values)
    finally show ?thesis .
  qed
qed


lemma filter_upt_split:
  assumes "i < n"
  shows "filter P [0..<n] = filter P [0..<Suc i] @ filter P [Suc i..<n]"
proof -
  have "[0..<n] = [0..<Suc i] @ [Suc i..<n]"
    using assms by (metis Suc_leI le0 upt_add_eq_append le_add_diff_inverse)
  then show ?thesis by (metis filter_append)
qed

lemma filter_upt_nth:
  assumes "i < n" "P i"
  shows "filter P [0..<n] ! length (filter P [0..<i]) = i"
    and "length (filter P [0..<i]) < length (filter P [0..<n])"
    and "take (Suc (length (filter P [0..<i]))) (filter P [0..<n]) = filter P [0..<Suc i]"
proof -
  have split: "filter P [0..<n] = filter P [0..<i] @ i # filter P [Suc i..<n]"
    using filter_upt_split[OF assms(1), of P] assms(2) by simp
  show "filter P [0..<n] ! length (filter P [0..<i]) = i"
    by (simp add: split)
  show "length (filter P [0..<i]) < length (filter P [0..<n])"
    by (simp add: split)
  show "take (Suc (length (filter P [0..<i]))) (filter P [0..<n]) = filter P [0..<Suc i]"
    using assms(2) by (simp add: split)
qed

lemma map_nth_filter_upt:
  "m \<le> length rs \<Longrightarrow>
   map ((!) (map t rs)) (filter (\<lambda>a. map s rs ! a = k) [0..<m]) = map t (filter (\<lambda>r. s r = k) (take m rs))"
proof (induction m)
  case 0
  then show ?case by simp
next
  case (Suc m)
  then have "m < length rs" by simp
  then show ?case using Suc by (simp add: take_Suc_conv_app_nth)
qed

lemma rolling_nth:
  "j < length g \<Longrightarrow>
   rolling w p agg g ! j = (if length (window w g j) < p then None else agg (window w g j))"
  by (simp add: rolling_def)

lemma length_rolling: "length (rolling w p agg g) = length g"
  by (simp add: rolling_def)

lemma group_keys_props: "distinct (group_keys keys)" "set (group_keys keys) = set keys"
  by (simp_all add: group_keys_def)

lemma groupby_transform_nth:
  assumes len: "\<And>g. length (f g) = length g" and i: "i < length keys"
  shows "groupby_transform f keys vals ! i =
         f (group_values keys vals (keys ! i)) ! length (filter (\<lambda>a. keys ! a = keys ! i) [0..<i])"
proof -
  let ?k = "keys ! i"
  let ?j = "length (filter (\<lambda>a. keys ! a = ?k) [0..<i])"
  have at: "group_indices keys ?k ! ?j = i" and lt: "?j < length (group_indices keys ?k)"
    unfolding group_indices_def using filter_upt_nth(1,2)[of i "length keys" "\<lambda>a. keys ! a = ?k"] i
    by simp_all
  have "?k \<in> set (group_keys keys)" using i by (simp add: group_keys_props)
  from fold_scatter_groups[of f "group_keys keys" ?k ?j keys "replicate (length keys) None" vals,
      OF len group_keys_props(1) this lt]
  show ?thesis by (simp add: groupby_transform_def at)
qed

lemma window_of_group:
  assumes i: "i < length rs"
  shows "window 30 (group_values (map season rs) (map temperature rs) (season (rs ! i)))
           (length (filter (\<lambda>a. map season rs ! a = season (rs ! i)) [0..<i])) = spec_window rs i"
proof -
  let ?P = "\<lambda>a. map season rs ! a = season (rs ! i)"
  let ?j = "length (filter ?P [0..<i])"
  have Pi: "?P i" using i by simp
  have tk: "take (Suc ?j) (group_values (map season rs) (map temperature rs) (season (rs ! i)))
        = spec_partition rs i"
    unfolding group_values_def group_indices_def spec_partition_def take_map
    using filter_upt_nth(3)[of i "length rs" ?P] i Pi
      map_nth_filter_upt[of "Suc i" rs temperature season "season (rs ! i)"]
    by simp
  have "length (spec_partition rs i) = Suc ?j"
    using filter_upt_nth(2)[of i "length rs" ?P] i Pi
    unfolding tk[symmetric] group_values_def group_indices_def by simp
  then show ?thesis unfolding window_def tk spec_window_def by simp
qed

lemma spec_window_nonempty: "i < length rs \<Longrightarrow> spec_window rs i \<noteq> []"
proof -
  assume i: "i < length rs"
  have "rs ! i \<in> set (take (Suc i) rs)" using i by (simp add: take_Suc_conv_app_nth)
  then have "spec_partition rs i \<noteq> []"
    unfolding spec_partition_def by (auto simp: filter_empty_conv)
  then have "0 < length (spec_partition rs i)" by simp
  then have "\<not> length (spec_partition rs i) \<le> length (spec_partition rs i) - 30" by arith
  then show ?thesis unfolding spec_window_def by simp
qed

lemma rolling_column_nth:
  assumes i: "i < length rs"
  shows "groupby_transform (rolling 30 1 agg) (map season rs) (map temperature rs) ! i
         = agg (spec_window rs i)"
proof -
  let ?g = "group_values (map season rs) (map temperature rs) (season (rs ! i))"
  let ?P = "\<lambda>a. map season rs ! a = season (rs ! i)"
  let ?j = "length (filter ?P [0..<i])"
  have j: "?j < length ?g"
    using filter_upt_nth(2)[of i "length rs" ?P] i
    by (simp add: group_values_def group_indices_def)
  have "groupby_transform (rolling 30 1 agg) (map season rs) (map temperature rs) ! i
        = rolling 30 1 agg ?g ! ?j"
    using groupby_transform_nth[of "rolling 30 1 agg" i "map season rs" "map temperature rs"] i
    by (simp add: length_rolling)
  also have "\<dots> = agg (spec_window rs i)"
    using spec_window_nonempty[OF i]
    by (simp add: rolling_nth[OF j] window_of_group[OF i] Suc_le_eq)
  finally show ?thesis .
qed

lemma length_groupby_transform: "length (groupby_transform f keys vals) = length keys"
proof -
  have "\<And>out. length (fold (\<lambda>k out. scatter (group_indices keys k) (f (group_values keys vals k)) out) ks out) = length out" for ks
    by (induction ks) simp_all
  then show ?thesis by (simp add: groupby_transform_def)
qed

section \<open>The columns of the analysis\<close>

lemma map_of_set_column_same: "map_of (set_column n c cs) n = Some c"
  by (induction cs) auto

lemma map_of_set_column_other: "n' \<noteq> n \<Longrightarrow> map_of (set_column n c cs) n' = map_of cs n'"
  by (induction cs) auto

lemma is_anomaly_spec:
  "is_anomaly (temperature (rs ! i)) (series_mean (spec_window rs i)) (series_std (spec_window rs i))
   = spec_anomalous rs i"
  by (cases "series_mean (spec_window rs i)"; cases "series_std (spec_window rs i)")
     (auto simp: is_anomaly_def spec_anomalous_def)

lemma rolling_mean_column_eq:
  "rolling_mean_column rs = map (\<lambda>i. series_mean (spec_window rs i)) [0..<length rs]"
proof (rule nth_equalityI)
  show "length (rolling_mean_column rs) = length (map (\<lambda>i. series_mean (spec_window rs i)) [0..<length rs])"
    by (simp add: rolling_mean_column_def length_groupby_transform)
next
  fix i assume "i < length (rolling_mean_column rs)"
  then have "i < length rs"
    by (simp add: rolling_mean_column_def length_groupby_transform)
  then show "rolling_mean_column rs ! i = map (\<lambda>i. series_mean (spec_window rs i)) [0..<length rs] ! i"
    unfolding rolling_mean_column_def using rolling_column_nth[of i rs series_mean] by simp
qed

lemma rolling_std_column_eq:
  "rolling_std_column rs = map (\<lambda>i. series_std (spec_window rs i)) [0..<length rs]"
proof (rule nth_equalityI)
  show "length (rolling_std_column rs) = length (map (\<lambda>i. series_std (spec_window rs i)) [0..<length rs])"
    by (simp add: rolling_std_column_def length_groupby_transform)
next
  fix i assume "i < length (rolling_std_column rs)"
  then have "i < length rs"
    by (simp add: rolling_std_column_def length_groupby_transform)
  then show "rolling_std_column rs ! i = map (\<lambda>i. series_std (spec_window rs i)) [0..<length rs] ! i"
    unfolding rolling_std_column_def using rolling_column_nth[of i rs series_std] by simp
qed

lemma anomaly_column_eq:
  "anomaly_column rs = map (spec_anomalous rs) [0..<length rs]"
proof (rule nth_equalityI)
  show "length (anomaly_column rs) = length (map (spec_anomalous rs) [0..<length rs])"
    by (simp add: anomaly_column_def rolling_mean_column_eq rolling_std_column_eq)
next
  fix i assume "i < length (anomaly_column rs)"
  then have i: "i < length rs"
    by (simp add: anomaly_column_def rolling_mean_column_eq rolling_std_column_eq)
  then show "anomaly_column rs ! i = map (spec_anomalous rs) [0..<length rs] ! i"
    by (simp add: anomaly_column_def rolling_mean_column_eq rolling_std_column_eq is_anomaly_spec)
qed

lemma compute_trend_nonempty:
  "rs \<noteq> [] \<Longrightarrow> \<exists>coef. compute_trend rs = Inr coef"
  by (simp add: compute_trend_def linear_regression_coef_def)

lemma analyze_nonempty:
  assumes "rows df \<noteq> []"
  shows "\<exists>res. analyze_city_temperature df c =
           Inr (res, assign ''anomaly'' (BoolCol (anomaly_column (rows df)))
                      (assign ''rolling_std'' (FloatCol (rolling_std_column (rows df)))
                        (assign ''rolling_mean'' (FloatCol (rolling_mean_column (rows df))) df)))
         \<and> season_profile res = compute_profile (rows df)
         \<and> (average_temperature res, min_temperature res, max_temperature res) = compute_basic_stats (rows df)
         \<and> compute_trend (rows df) = Inr (trend res)
         \<and> rolling_mean res = zip (map timestamp (rows df)) (rolling_mean_column (rows df))
         \<and> rolling_std res = zip (map timestamp (rows df)) (rolling_std_column (rows df))
         \<and> anomalies res = map (\<lambda>r. (timestamp r, temperature r))
              (map fst (filter snd (zip (rows df) (anomaly_column (rows df)))))"
proof -
  obtain coef where "compute_trend (rows df) = Inr coef"
    using compute_trend_nonempty[OF assms] by blast
  then show ?thesis
    by (simp add: analyze_city_temperature_def Let_def split: prod.splits)
qed

lemma added_columns:
  fixes df a b c
  defines "df' \<equiv> assign ''anomaly'' c (assign ''rolling_std'' b (assign ''rolling_mean'' a df))"
  shows "rows df' = rows df"
    and "map_of (extra df') ''rolling_mean'' = Some a"
    and "map_of (extra df') ''rolling_std'' = Some b"
    and "map_of (extra df') ''anomaly'' = Some c"
    and "name \<noteq> ''rolling_mean'' \<Longrightarrow> name \<noteq> ''rolling_std'' \<Longrightarrow> name \<noteq> ''anomaly''
         \<Longrightarrow> map_of (extra df') name = map_of (extra df) name"
  by (simp_all add: df'_def assign_def map_of_set_column_same map_of_set_column_other)

section \<open>The anomaly rule\<close>


lemma length_spec_window:
  "length (spec_window rs i) = min 30 (length (spec_partition rs i))"
  by (simp add: spec_window_def)




lemma spec_window_first:
  assumes i: "i < length rs" and first: "\<forall>j<i. season (rs ! j) \<noteq> season (rs ! i)"
  shows "spec_window rs i = [temperature (rs ! i)]"
proof -
  have "filter (\<lambda>r. season r = season (rs ! i)) (take i rs) = []"
    using first i by (auto simp: filter_empty_conv in_set_conv_nth)
  then have "spec_partition rs i = [temperature (rs ! i)]"
    using i by (simp add: spec_partition_def take_Suc_conv_app_nth)
  then show ?thesis by (simp add: spec_window_def)
qed

text \<open>
  C2. For every record that is the first of its season partition, the analysis returns a
  result, the rolling standard deviation of the record is undefined (NaN) in the frame and
  in the result, and the anomaly flag of the record is false, whatever its temperature.
\<close>

theorem first_of_partition_not_flagged:
  assumes "i < length (rows df)"
    and "\<forall>j<i. season (rows df ! j) \<noteq> season (rows df ! i)"
  shows "\<exists>res df' sds flags.
           analyze_city_temperature df c = Inr (res, df')
         \<and> map_of (extra df') ''rolling_std'' = Some (FloatCol sds) \<and> sds ! i = None
         \<and> rolling_std res ! i = (timestamp (rows df ! i), None)
         \<and> map_of (extra df') ''anomaly'' = Some (BoolCol flags) \<and> flags ! i = False"
proof -
  have ne: "rows df \<noteq> []" using assms(1) by auto
  have w: "spec_window (rows df) i = [temperature (rows df ! i)]"
    using spec_window_first[OF assms] .
  have sd: "rolling_std_column (rows df) ! i = None"
    using assms(1) by (simp add: rolling_std_column_eq w series_std_def)
  have fl: "anomaly_column (rows df) ! i = False"
    using assms(1) by (simp add: anomaly_column_eq spec_anomalous_def w series_std_def series_mean_def)
  obtain res where res: "analyze_city_temperature df c =
           Inr (res, assign ''anomaly'' (BoolCol (anomaly_column (rows df)))
                      (assign ''rolling_std'' (FloatCol (rolling_std_column (rows df)))
                        (assign ''rolling_mean'' (FloatCol (rolling_mean_column (rows df))) df)))"
    and rs: "rolling_std res = zip (map timestamp (rows df)) (rolling_std_column (rows df))"
    using analyze_nonempty[OF ne, of c] by blast
  have "rolling_std res ! i = (timestamp (rows df ! i), None)"
    using assms(1) sd by (simp add: rs rolling_std_column_def length_groupby_transform)
  then show ?thesis
    using res sd fl by (simp add: added_columns)
qed

theorem first_of_partition_not_flagged_witness:
  "\<exists>res df' sds flags.
     analyze_city_temperature
       \<lparr>rows =
         [\<lparr>timestamp = 0, city = ''Berlin'', temperature = 0, season = ''winter''\<rparr>,
          \<lparr>timestamp = 1, city = ''Berlin'', temperature = 1, season = ''winter''\<rparr>,
          \<lparr>timestamp = 2, city = ''Berlin'', temperature = 1000, season = ''summer''\<rparr>],
        extra = []\<rparr> ''Berlin'' = Inr (res, df')
     \<and> map_of (extra df') ''rolling_std'' = Some (FloatCol sds) \<and> sds ! 2 = None
     \<and> rolling_std res ! 2 = (2, None)
     \<and> map_of (extra df') ''anomaly'' = Some (BoolCol flags) \<and> flags ! 2 = False"
  using first_of_partition_not_flagged [of 2
       "\<lparr>rows =
         [\<lparr>timestamp = 0, city = ''Berlin'', temperature = 0, season = ''winter''\<rparr>,
          \<lparr>timestamp = 1, city = ''Berlin'', temperature = 1, season = ''winter''\<rparr>,
          \<lparr>timestamp = 2, city = ''Berlin'', temperature = 1000, season = ''summer''\<rparr>],
        extra = []\<rparr>" "''Berlin''"]
  by (simp add: less_Suc_eq numeral_2_eq_2)

section \<open>Rounding to double precision is monotone\<close>

lemma rhe_of_int [simp]: "round_half_even (of_int k) = k"
  by (simp add: round_half_even_def)

lemma rhe_mono:
  assumes "y \<le> y'"
  shows "round_half_even y \<le> round_half_even y'"
proof -
  have fl: "\<lfloor>y\<rfloor> \<le> \<lfloor>y'\<rfloor>" using assms by (rule floor_mono)
  have lo: "\<lfloor>z\<rfloor> \<le> round_half_even z" and hi: "round_half_even z \<le> \<lfloor>z\<rfloor> + 1" for z
    by (simp_all add: round_half_even_def)
  show ?thesis
  proof (cases "\<lfloor>y\<rfloor> = \<lfloor>y'\<rfloor>")
    case True
    then have "y - of_int \<lfloor>y\<rfloor> \<le> y' - of_int \<lfloor>y'\<rfloor>" using assms by simp
    then show ?thesis using True by (auto simp: round_half_even_def)
  next
    case False
    then have "\<lfloor>y\<rfloor> + 1 \<le> \<lfloor>y'\<rfloor>" using fl by simp
    then show ?thesis using lo[of y'] hi[of y] by linarith
  qed
qed

lemma rhe_uminus: "round_half_even (- y) = - round_half_even y"
proof (cases "y = of_int \<lfloor>y\<rfloor>")
  case True
  then obtain k where "y = of_int k" by blast
  then have "- y = of_int (- k)" by simp
  then show ?thesis using \<open>y = of_int k\<close> by (simp only: rhe_of_int)
next
  case False
  have fl: "\<lfloor>- y\<rfloor> = - \<lfloor>y\<rfloor> - 1"
    using False by (simp add: floor_minus ceiling_altdef)
  have fr: "- y - of_int \<lfloor>- y\<rfloor> = 1 - (y - of_int \<lfloor>y\<rfloor>)"
    by (simp add: fl)
  show ?thesis
    unfolding round_half_even_def fr
    by (auto simp: fl)
qed


lemma ulp64_pos: "0 < ulp64 x"
  by (simp add: ulp64_def)

lemma ulp64_uminus: "ulp64 (- x) = ulp64 x"
  by (simp add: ulp64_def exponent64_def)

lemma nearest64_uminus: "nearest64 (- x) = - nearest64 x"
  by (simp add: nearest64_def ulp64_uminus rhe_uminus)

lemma log2_bounds:
  assumes "0 < x"
  shows "2 powr real_of_int \<lfloor>log 2 x\<rfloor> \<le> x" and "x < 2 powr real_of_int (\<lfloor>log 2 x\<rfloor> + 1)"
proof -
  have "2 powr real_of_int \<lfloor>log 2 x\<rfloor> \<le> 2 powr log 2 x"
    by (simp add: powr_le_cancel_iff)
  then show "2 powr real_of_int \<lfloor>log 2 x\<rfloor> \<le> x" using assms by simp
  have "log 2 x < real_of_int (\<lfloor>log 2 x\<rfloor> + 1)" by linarith
  then have "2 powr log 2 x < 2 powr real_of_int (\<lfloor>log 2 x\<rfloor> + 1)"
    by (simp only: powr_less_cancel_iff)
  then show "x < 2 powr real_of_int (\<lfloor>log 2 x\<rfloor> + 1)" using assms by simp
qed

lemma rhe_ge: "real_of_int k \<le> y \<Longrightarrow> k \<le> round_half_even y"
  using rhe_mono[of "real_of_int k" y] by simp

lemma rhe_le: "y \<le> real_of_int k \<Longrightarrow> round_half_even y \<le> k"
  using rhe_mono[of y "real_of_int k"] by simp

lemma nearest64_upper:
  assumes "0 < x"
  shows "nearest64 x \<le> 2 powr real_of_int (exponent64 x + 1)"
proof -
  let ?E = "exponent64 x"
  have "x < 2 powr real_of_int (\<lfloor>log 2 x\<rfloor> + 1)" using log2_bounds(2)[OF assms] .
  also have "\<dots> \<le> 2 powr real_of_int (?E + 1)"
    using assms by (simp add: exponent64_def powr_le_cancel_iff)
  finally have "x / ulp64 x < 2 powr real_of_int (?E + 1) / ulp64 x"
    using ulp64_pos[of x] by (simp add: divide_strict_right_mono)
  also have "2 powr real_of_int (?E + 1) / ulp64 x = 2 powr 53"
    by (simp add: ulp64_def powr_diff[symmetric])
  also have "(2::real) powr 53 = real_of_int (2 ^ 53)" by simp
  finally have "round_half_even (x / ulp64 x) \<le> 2 ^ 53"
    by (intro rhe_le) simp
  then have "real_of_int (round_half_even (x / ulp64 x)) \<le> 2 powr 53"
    by (metis of_int_le_iff \<open>(2::real) powr 53 = real_of_int (2 ^ 53)\<close>)
  then have "nearest64 x \<le> 2 powr 53 * ulp64 x"
    using assms ulp64_pos[of x] by (simp add: nearest64_def)
  also have "2 powr 53 * ulp64 x = 2 powr (53 + real_of_int (?E - 52))"
    unfolding ulp64_def by (rule powr_add[symmetric])
  also have "53 + real_of_int (?E - 52) = real_of_int (?E + 1)" by simp
  finally show ?thesis .
qed

lemma nearest64_nonneg:
  assumes "0 \<le> x"
  shows "0 \<le> nearest64 x"
proof (cases "x = 0")
  case True
  then show ?thesis by (simp add: nearest64_def)
next
  case False
  then have "0 \<le> x / ulp64 x" using assms ulp64_pos[of x] by simp
  then have "0 \<le> round_half_even (x / ulp64 x)" by (intro rhe_ge) simp
  then show ?thesis using ulp64_pos[of x] False by (simp add: nearest64_def)
qed

lemma nearest64_lower:
  assumes "0 < x" and "- 1022 \<le> \<lfloor>log 2 x\<rfloor>"
  shows "2 powr real_of_int (exponent64 x) \<le> nearest64 x"
proof -
  let ?E = "exponent64 x"
  have E: "?E = \<lfloor>log 2 x\<rfloor>" using assms by (simp add: exponent64_def)
  have "2 powr real_of_int ?E \<le> x" using log2_bounds(1)[OF assms(1)] E by simp
  then have "2 powr real_of_int ?E / ulp64 x \<le> x / ulp64 x"
    using ulp64_pos[of x] by (simp add: divide_right_mono)
  moreover have "2 powr real_of_int ?E / ulp64 x = 2 powr 52"
    by (simp add: ulp64_def powr_diff[symmetric])
  moreover have p: "(2::real) powr 52 = real_of_int (2 ^ 52)" by simp
  ultimately have "2 ^ 52 \<le> round_half_even (x / ulp64 x)"
    by (intro rhe_ge) simp
  then have "2 powr 52 \<le> real_of_int (round_half_even (x / ulp64 x))"
    by (metis of_int_le_iff p)
  then have "2 powr 52 * ulp64 x \<le> nearest64 x"
    using assms ulp64_pos[of x] by (simp add: nearest64_def)
  moreover have "2 powr 52 * ulp64 x = 2 powr (52 + real_of_int (?E - 52))"
    unfolding ulp64_def by (rule powr_add[symmetric])
  moreover have "52 + real_of_int (?E - 52) = real_of_int ?E" by simp
  ultimately show ?thesis by simp
qed

lemma nearest64_mono_pos:
  assumes "0 < x" "x \<le> y"
  shows "nearest64 x \<le> nearest64 y"
proof -
  have y: "0 < y" using assms by simp
  have L: "\<lfloor>log 2 x\<rfloor> \<le> \<lfloor>log 2 y\<rfloor>"
    using assms by (intro floor_mono) (simp add: log_le_cancel_iff)
  then have E: "exponent64 x \<le> exponent64 y"
    using assms y by (simp add: exponent64_def)
  show ?thesis
  proof (cases "exponent64 x = exponent64 y")
    case True
    then have q: "ulp64 x = ulp64 y" by (simp add: ulp64_def)
    have "x / ulp64 y \<le> y / ulp64 y"
      using assms ulp64_pos[of y] by (simp add: divide_right_mono)
    then have "round_half_even (x / ulp64 y) \<le> round_half_even (y / ulp64 y)"
      by (rule rhe_mono)
    then show ?thesis
      using assms y ulp64_pos[of y] by (simp add: nearest64_def q)
  next
    case False
    then have lt: "exponent64 x + 1 \<le> exponent64 y" using E by simp
    then have "- 1022 < exponent64 y" by (simp add: exponent64_def)
    then have Ly: "- 1022 \<le> \<lfloor>log 2 y\<rfloor>" using y unfolding exponent64_def by simp linarith
    have "nearest64 x \<le> 2 powr real_of_int (exponent64 x + 1)"
      using nearest64_upper[OF assms(1)] .
    also have "\<dots> \<le> 2 powr real_of_int (exponent64 y)"
      using lt by (simp add: powr_le_cancel_iff)
    also have "\<dots> \<le> nearest64 y"
      using nearest64_lower[OF y Ly] .
    finally show ?thesis .
  qed
qed

lemma nearest64_mono:
  assumes "x \<le> y"
  shows "nearest64 x \<le> nearest64 y"
proof -
  consider "0 < x" | "x \<le> 0" "0 \<le> y" | "y < 0" by linarith
  then show ?thesis
  proof cases
    case 1
    then show ?thesis using assms by (rule nearest64_mono_pos)
  next
    case 2
    have "nearest64 x = - nearest64 (- x)" by (simp add: nearest64_uminus)
    moreover have "0 \<le> nearest64 (- x)" using 2 by (intro nearest64_nonneg) simp
    moreover have "0 \<le> nearest64 y" using 2 by (intro nearest64_nonneg)
    ultimately show ?thesis by linarith
  next
    case 3
    then have "nearest64 (- y) \<le> nearest64 (- x)"
      using assms by (intro nearest64_mono_pos) simp_all
    then show ?thesis by (simp add: nearest64_uminus)
  qed
qed

lemma round64_mono:
  assumes "x \<le> y"
  shows "f64_le (round64 x) (round64 y)"
  using nearest64_mono[OF assms] by (simp add: round64_def)


lemma round64_not_nan: "round64 x \<noteq> NaN"
  by (simp add: round64_def)

lemma f64_le_refl: "a \<noteq> NaN \<Longrightarrow> f64_le a a"
  by (cases a) simp_all

lemma round64_nonneg: "0 \<le> x \<Longrightarrow> f64_le (Finite 0) (round64 x)"
  using nearest64_nonneg[of x] by (simp add: round64_def)

lemma bounds_ordered:
  assumes "f64_le (Finite 0) sd"
  shows "f64_le (f64_sub (Finite mu) (f64_mul (Finite 2) sd)) (f64_add (Finite mu) (f64_mul (Finite 2) sd))"
    and "f64_sub (Finite mu) (f64_mul (Finite 2) sd) \<noteq> NaN"
    and "f64_add (Finite mu) (f64_mul (Finite 2) sd) \<noteq> NaN"
proof -
  have two: "f64_le (Finite 0) (f64_mul (Finite 2) sd)"
  proof (cases sd)
    case (Finite sigma)
    then have "0 \<le> 2 * sigma" using assms by simp
    then show ?thesis using Finite by (simp add: round64_nonneg)
  qed (use assms in simp_all)
  consider d where "f64_mul (Finite 2) sd = Finite d" "0 \<le> d" | "f64_mul (Finite 2) sd = PosInf"
    using two by (cases "f64_mul (Finite 2) sd") simp_all
  then have "f64_le (f64_sub (Finite mu) (f64_mul (Finite 2) sd)) (f64_add (Finite mu) (f64_mul (Finite 2) sd))
      \<and> f64_sub (Finite mu) (f64_mul (Finite 2) sd) \<noteq> NaN
      \<and> f64_add (Finite mu) (f64_mul (Finite 2) sd) \<noteq> NaN"
  proof cases
    case 1
    have "mu - d \<le> mu + d" using 1(2) by simp
    then show ?thesis
      using 1(1) round64_mono[of "mu - d" "mu + d"] by (simp add: f64_sub_def round64_not_nan)
  next
    case 2
    then show ?thesis by (simp add: f64_sub_def)
  qed
  then show "f64_le (f64_sub (Finite mu) (f64_mul (Finite 2) sd)) (f64_add (Finite mu) (f64_mul (Finite 2) sd))"
    and "f64_sub (Finite mu) (f64_mul (Finite 2) sd) \<noteq> NaN"
    and "f64_add (Finite mu) (f64_mul (Finite 2) sd) \<noteq> NaN"
    by simp_all
qed

lemma nearest64_normal:
  assumes "2 powr real_of_int e \<le> x" "x < 2 powr real_of_int (e + 1)" "- 1022 \<le> e"
  shows "nearest64 x =
         real_of_int (round_half_even (x / 2 powr real_of_int (e - 52))) * 2 powr real_of_int (e - 52)"
proof -
  have pos: "0 < x" using assms(1) by (smt (verit) powr_gt_zero)
  have "\<lfloor>log 2 x\<rfloor> = e"
    using assms pos by (subst floor_log_eq_powr_iff) simp_all
  then have "exponent64 x = e" using assms(3) pos by (simp add: exponent64_def)
  then show ?thesis using pos by (simp add: nearest64_def ulp64_def)
qed

lemma nearest64_2: "nearest64 2 = 2"
proof -
  have "nearest64 2 =
        real_of_int (round_half_even (2 / 2 powr real_of_int (1 - 52))) * 2 powr real_of_int (1 - 52)"
    by (rule nearest64_normal) simp_all
  also have "2 / 2 powr real_of_int (1 - 52) = real_of_int (2 ^ 52)"
    by (simp add: powr_neg_numeral)
  finally show ?thesis by (simp only: rhe_of_int) (simp add: powr_neg_numeral)
qed

lemma nearest64_2_eps: "nearest64 (2 + 1 / 2 ^ 60) = 2"
proof -
  have "nearest64 (2 + 1 / 2 ^ 60) =
        real_of_int (round_half_even ((2 + 1 / 2 ^ 60) / 2 powr real_of_int (1 - 52)))
          * 2 powr real_of_int (1 - 52)"
    by (rule nearest64_normal) simp_all
  also have "(2 + 1 / 2 ^ 60) / 2 powr real_of_int (1 - 52) = real_of_int (2 ^ 52) + 1 / 512"
    by (simp add: powr_neg_numeral)
  also have "round_half_even (real_of_int (2 ^ 52) + 1 / 512) = 2 ^ 52"
  proof -
    have "\<lfloor>real_of_int (2 ^ 52) + 1 / 512\<rfloor> = 2 ^ 52"
      by (rule floor_unique) simp_all
    then show ?thesis by (simp add: round_half_even_def)
  qed
  finally show ?thesis by (simp add: powr_neg_numeral)
qed

lemma round64_2: "round64 2 = Finite 2"
  by (simp add: round64_def nearest64_2)

lemma round64_minus_2: "round64 (- 2) = Finite (- 2)"
  using nearest64_uminus[of 2] by (simp add: round64_def nearest64_2)

lemma round64_2_eps: "round64 (2 + 1 / 2 ^ 60) = Finite 2"
  unfolding round64_def nearest64_2_eps by simp

section \<open>The seasonal profile and the normal range\<close>

lemma group_values_rows:
  "group_values (map season rs) (map temperature rs) k
   = map temperature (filter (\<lambda>r. season r = k) rs)"
  using map_nth_filter_upt[of "length rs" rs temperature season k]
  by (simp add: group_values_def group_indices_def)

lemma map_of_keyed: "map_of (map (\<lambda>k. (k, f k)) ks) k = (if k \<in> set ks then Some (f k) else None)"
  by (induction ks) auto

lemma map_of_compute_profile:
  "map_of (compute_profile rs) s =
     (if s \<in> season ` set rs
      then Some (series_mean (map temperature (filter (\<lambda>r. season r = s) rs)),
                 series_std (map temperature (filter (\<lambda>r. season r = s) rs)))
      else None)"
  by (simp add: compute_profile_def groupby_agg_def map_of_keyed group_keys_props group_values_rows)

lemma keys_compute_profile:
  "map fst (compute_profile rs) = sort (remdups (map season rs))"
  by (simp add: compute_profile_def groupby_agg_def group_keys_def o_def)

text \<open>The month of a calendar date (1 to 12) always has a season label.\<close>

lemma season_map_months:
  "map_of season_map m = None \<longleftrightarrow> m = 0 \<or> 12 < m"
proof -
  have "m = 0 \<or> m = 1 \<or> m = 2 \<or> m = 3 \<or> m = 4 \<or> m = 5 \<or> m = 6 \<or> m = 7 \<or> m = 8
        \<or> m = 9 \<or> m = 10 \<or> m = 11 \<or> m = 12 \<or> 12 < m"
    by arith
  then show ?thesis
    by (auto simp: season_map_def)
qed

text \<open>
  C4, as stated, fails in July on a profile that has winter only: the lookup of line 89
  raises \<open>KeyError\<close> for the label, nothing catches it, and the run is aborted by that
  exception; the error display that a failed request gets is not used.
\<close>

theorem absent_season_aborts_script_counterexample:
  "current_temperature_section (Temperature (Finite 20)) 7 [(''winter'', Finite 3, NaN)]
     = Aborted (KeyError ''summer'')
   \<and> current_temperature_section (Failure_dict (error_dict ''Unexpected error occurred.'')) 7
       [(''winter'', Finite 3, NaN)]
     = Finished (St_error (error_dict ''Unexpected error occurred.''))"
  by (simp add: current_temperature_section_def season_map_def check_current_reading_def)

text \<open>
  C4, as the code has it. When the season of the current month is a label that no record
  of the analysed series carries, and the reading is a number, the lookup in the seasonal
  profile raises the \<open>KeyError\<close> of that label, which leaves the script uncaught: the run
  is aborted, no bounds are computed and no default entry stands in for the missing one.
  The profile is any frame with the labels of the series' profile.
\<close>

theorem absent_season_aborts_script:
  assumes "map_of season_map month = Some s"
    and "s \<notin> season ` set rs"
    and "map fst prof = map fst (compute_profile rs)"
  shows "current_temperature_section (Temperature t) month prof = Aborted (KeyError s)"
proof -
  have "s \<notin> set (map fst prof)"
    using assms(2) by (simp add: assms(3) keys_compute_profile)
  then have "map_of prof s = None"
    by (simp add: map_of_eq_None_iff)
  then show ?thesis
    using assms(1) by (simp add: current_temperature_section_def check_current_reading_def)
qed

theorem absent_season_aborts_script_witness:
  "current_temperature_section (Temperature (Finite 20)) 1 [(''summer'', Finite 25, NaN)]
     = Aborted (KeyError ''winter'')"
  using absent_season_aborts_script [of 1 "''winter''"
      "[\<lparr>timestamp = 0, city = ''Berlin'', temperature = 25, season = ''summer''\<rparr>]"
      "[(''summer'', Finite 25, NaN)]" "Finite 20"]
  by (simp add: season_map_def keys_compute_profile)

text \<open>
  C5. The keys of the seasonal profile are exactly the distinct season labels of the
  series, each once; every present season has the mean and the sample standard deviation
  of all its temperatures, and an absent season has no entry.
\<close>

theorem profile_keys_are_present_seasons:
  "set (map fst (compute_profile rs)) = season ` set rs
   \<and> distinct (map fst (compute_profile rs))
   \<and> (\<forall>s \<in> season ` set rs.
         map_of (compute_profile rs) s =
           Some (series_mean (map temperature (filter (\<lambda>r. season r = s) rs)),
                 series_std (map temperature (filter (\<lambda>r. season r = s) rs))))
   \<and> (\<forall>s. s \<notin> season ` set rs \<longrightarrow> map_of (compute_profile rs) s = None)"
  by (simp add: keys_compute_profile map_of_compute_profile)

theorem profile_keys_are_present_seasons_witness:
  "set (map fst (compute_profile
      [\<lparr>timestamp = 0, city = ''Berlin'', temperature = 0, season = ''winter''\<rparr>,
       \<lparr>timestamp = 1, city = ''Berlin'', temperature = 20, season = ''summer''\<rparr>,
       \<lparr>timestamp = 2, city = ''Berlin'', temperature = 2, season = ''winter''\<rparr>]))
     = {''winter'', ''summer''}
   \<and> map_of (compute_profile
      [\<lparr>timestamp = 0, city = ''Berlin'', temperature = 0, season = ''winter''\<rparr>,
       \<lparr>timestamp = 1, city = ''Berlin'', temperature = 20, season = ''summer''\<rparr>,
       \<lparr>timestamp = 2, city = ''Berlin'', temperature = 2, season = ''winter''\<rparr>]) ''winter''
     = Some (Some 1, Some (sqrt 2))
   \<and> map_of (compute_profile
      [\<lparr>timestamp = 0, city = ''Berlin'', temperature = 0, season = ''winter''\<rparr>,
       \<lparr>timestamp = 1, city = ''Berlin'', temperature = 20, season = ''summer''\<rparr>,
       \<lparr>timestamp = 2, city = ''Berlin'', temperature = 2, season = ''winter''\<rparr>]) ''summer''
     = Some (Some 20, None)
   \<and> map_of (compute_profile
      [\<lparr>timestamp = 0, city = ''Berlin'', temperature = 0, season = ''winter''\<rparr>,
       \<lparr>timestamp = 1, city = ''Berlin'', temperature = 20, season = ''summer''\<rparr>,
       \<lparr>timestamp = 2, city = ''Berlin'', temperature = 2, season = ''winter''\<rparr>]) ''spring''
     = None"
  using profile_keys_are_present_seasons [of
      "[\<lparr>timestamp = 0, city = ''Berlin'', temperature = 0, season = ''winter''\<rparr>,
       \<lparr>timestamp = 1, city = ''Berlin'', temperature = 20, season = ''summer''\<rparr>,
       \<lparr>timestamp = 2, city = ''Berlin'', temperature = 2, season = ''winter''\<rparr>]"]
  by (auto simp add: series_mean_def series_std_def sum_sq_dev_def)

text \<open>
  C8, as stated, fails for an entry with mean 0 and standard deviation 1 and the positive
  epsilon \<open>1 / 2 ^ 60\<close>: in double precision \<open>0 + 2 * 1 + epsilon\<close> is 2, the upper bound
  itself, and the reading is normal.
\<close>

theorem rounding_absorbs_epsilon_counterexample:
  "f64_add (f64_add (Finite 0) (f64_mul (Finite 2) (Finite 1))) (Finite (1 / 2 ^ 60)) = Finite 2
   \<and> check_current_reading
        (f64_add (f64_add (Finite 0) (f64_mul (Finite 2) (Finite 1))) (Finite (1 / 2 ^ 60)))
        [(''winter'', Finite 0, Finite 1)] ''winter''
     = Inr \<lparr>mean_temp = Finite 0, std_temp = Finite 1, lower_bound = Finite (- 2),
            upper_bound = Finite 2, is_normal = True\<rparr>"
proof -
  have two: "f64_mul (Finite 2) (Finite 1) = Finite 2"
    by (simp add: round64_2)
  have up: "f64_add (Finite 0) (Finite 2) = Finite 2"
    and lo: "f64_sub (Finite 0) (Finite 2) = Finite (- 2)"
    by (simp_all add: f64_sub_def round64_2 round64_minus_2)
  have t: "f64_add (Finite 2) (Finite (1 / 2 ^ 60)) = Finite 2"
    unfolding f64_add.simps round64_2_eps ..
  show ?thesis
    unfolding two up t
    by (simp add: check_current_reading_def Let_def f64_sub_def round64_2 round64_minus_2)
qed

text \<open>
  C8, as the code has it. For every entry \<open>(m, sd)\<close> of a seasonal profile and every
  current temperature the check computes the bounds \<open>m - 2 * sd\<close> and \<open>m + 2 * sd\<close> in
  double precision and reports the reading as normal exactly when it lies between the
  computed bounds, both ends included. When the mean is finite and the standard deviation
  is a number not below 0, a reading equal to the computed upper (or lower) bound is normal.
  A reading greater than the computed upper bound, or less than the computed lower bound,
  is not normal; an epsilon that rounding absorbs does not take a reading above the bound.
\<close>

theorem normal_range_in_double_precision:
  assumes "map_of prof s = Some (m, sd)"
  shows "check_current_reading t prof s =
           Inr \<lparr>mean_temp = m, std_temp = sd,
                lower_bound = f64_sub m (f64_mul (Finite 2) sd),
                upper_bound = f64_add m (f64_mul (Finite 2) sd),
                is_normal = (f64_le (f64_sub m (f64_mul (Finite 2) sd)) t
                             \<and> f64_le t (f64_add m (f64_mul (Finite 2) sd)))\<rparr>
       \<and> (\<forall>mu. m = Finite mu \<and> f64_le (Finite 0) sd \<longrightarrow>
             map_sum id is_normal
               (check_current_reading (f64_add m (f64_mul (Finite 2) sd)) prof s) = Inr True
           \<and> map_sum id is_normal
               (check_current_reading (f64_sub m (f64_mul (Finite 2) sd)) prof s) = Inr True)
       \<and> (\<forall>t'. f64_less (f64_add m (f64_mul (Finite 2) sd)) t' \<longrightarrow>
             map_sum id is_normal (check_current_reading t' prof s) = Inr False)
       \<and> (\<forall>t'. f64_less t' (f64_sub m (f64_mul (Finite 2) sd)) \<longrightarrow>
             map_sum id is_normal (check_current_reading t' prof s) = Inr False)"
proof (intro conjI allI impI)
  show "check_current_reading t prof s =
           Inr \<lparr>mean_temp = m, std_temp = sd,
                lower_bound = f64_sub m (f64_mul (Finite 2) sd),
                upper_bound = f64_add m (f64_mul (Finite 2) sd),
                is_normal = (f64_le (f64_sub m (f64_mul (Finite 2) sd)) t
                             \<and> f64_le t (f64_add m (f64_mul (Finite 2) sd)))\<rparr>"
    using assms by (simp add: check_current_reading_def Let_def)
next
  fix mu assume a: "m = Finite mu \<and> f64_le (Finite 0) sd"
  note b = bounds_ordered[of sd mu]
  show "map_sum id is_normal
          (check_current_reading (f64_add m (f64_mul (Finite 2) sd)) prof s) = Inr True"
    using assms a b by (simp add: check_current_reading_def Let_def f64_le_refl)
  show "map_sum id is_normal
          (check_current_reading (f64_sub m (f64_mul (Finite 2) sd)) prof s) = Inr True"
    using assms a b by (simp add: check_current_reading_def Let_def f64_le_refl)
next
  fix t' assume "f64_less (f64_add m (f64_mul (Finite 2) sd)) t'"
  then show "map_sum id is_normal (check_current_reading t' prof s) = Inr False"
    using assms by (auto simp add: check_current_reading_def Let_def f64_less_def)
next
  fix t' assume "f64_less t' (f64_sub m (f64_mul (Finite 2) sd))"
  then show "map_sum id is_normal (check_current_reading t' prof s) = Inr False"
    using assms by (auto simp add: check_current_reading_def Let_def f64_less_def)
qed

theorem normal_range_in_double_precision_witness:
  "check_current_reading (Finite 2) [(''winter'', Finite 0, Finite 1)] ''winter''
     = Inr \<lparr>mean_temp = Finite 0, std_temp = Finite 1, lower_bound = Finite (- 2),
            upper_bound = Finite 2, is_normal = True\<rparr>
   \<and> map_sum id is_normal
        (check_current_reading (Finite (- 2)) [(''winter'', Finite 0, Finite 1)] ''winter'') = Inr True
   \<and> map_sum id is_normal
        (check_current_reading (Finite 3) [(''winter'', Finite 0, Finite 1)] ''winter'') = Inr False"
proof -
  have h: "map_of [(''winter'', Finite 0, Finite 1)] ''winter'' = Some (Finite 0, Finite 1)"
    by simp
  have up: "f64_add (Finite 0) (f64_mul (Finite 2) (Finite 1)) = Finite 2"
    and lo: "f64_sub (Finite 0) (f64_mul (Finite 2) (Finite 1)) = Finite (- 2)"
    by (simp_all add: f64_sub_def round64_2 round64_minus_2)
  note inst = normal_range_in_double_precision [OF h, of "Finite 2", unfolded up lo]
  have at: "check_current_reading (Finite 2) [(''winter'', Finite 0, Finite 1)] ''winter''
     = Inr \<lparr>mean_temp = Finite 0, std_temp = Finite 1, lower_bound = Finite (- 2),
            upper_bound = Finite 2, is_normal = True\<rparr>"
    using inst by simp
  have "f64_le (Finite 0) (Finite 1)" by simp
  then have low: "map_sum id is_normal
        (check_current_reading (Finite (- 2)) [(''winter'', Finite 0, Finite 1)] ''winter'') = Inr True"
    using inst by blast
  have "\<forall>t'. f64_less (Finite 2) t' \<longrightarrow>
          map_sum id is_normal
            (check_current_reading t' [(''winter'', Finite 0, Finite 1)] ''winter'') = Inr False"
    using inst by blast
  then have "f64_less (Finite 2) (Finite 3) \<longrightarrow>
          map_sum id is_normal
            (check_current_reading (Finite 3) [(''winter'', Finite 0, Finite 1)] ''winter'') = Inr False"
    by (rule spec)
  then have above: "map_sum id is_normal
        (check_current_reading (Finite 3) [(''winter'', Finite 0, Finite 1)] ''winter'') = Inr False"
    by (simp add: f64_less_def)
  show ?thesis using at low above by blast
qed

section \<open>Descriptive statistics and the trend on degenerate series\<close>

lemma series_min_Min: "xs \<noteq> [] \<Longrightarrow> series_min xs = Some (Min (set xs))"
proof (cases xs)
  case (Cons a list)
  then show ?thesis using Min.set_eq_fold[of a list] by simp
qed simp

lemma series_max_Max: "xs \<noteq> [] \<Longrightarrow> series_max xs = Some (Max (set xs))"
proof (cases xs)
  case (Cons a list)
  then show ?thesis using Max.set_eq_fold[of a list] by simp
qed simp

text \<open>
  C6, as stated, fails on the empty series: its descriptive statistics are three NaN
  values, and computing them does not fail.
\<close>

theorem empty_series_statistics_are_nan_counterexample:
  "compute_basic_stats [] = (None, None, None)"
  by (simp add: compute_basic_stats_def series_mean_def)

text \<open>
  C6, as the code has it. The descriptive statistics have no non-emptiness precondition:
  on an empty series the mean, minimum and maximum are each NaN, and the call as a whole
  ends with the \<open>ValueError\<close> of the regression library on the empty sample; on a
  non-empty series they are the mean, the least and the greatest temperature.
\<close>

theorem basic_stats_without_precondition:
  "(rows df = [] \<longrightarrow>
      compute_basic_stats (rows df) = (None, None, None)
      \<and> analyze_city_temperature df c = Inl ValueError)
   \<and> (rows df \<noteq> [] \<longrightarrow>
      compute_basic_stats (rows df) =
        (Some (sum_list (map temperature (rows df)) / real (length (rows df))),
         Some (Min (temperature ` set (rows df))),
         Some (Max (temperature ` set (rows df)))))"
proof (intro conjI impI)
  assume e: "rows df = []"
  show "compute_basic_stats (rows df) = (None, None, None)"
    by (simp add: e compute_basic_stats_def series_mean_def)
  show "analyze_city_temperature df c = Inl ValueError"
    by (simp add: e analyze_city_temperature_def compute_trend_def linear_regression_coef_def
        Let_def split: prod.splits)
next
  assume "rows df \<noteq> []"
  then show "compute_basic_stats (rows df) =
        (Some (sum_list (map temperature (rows df)) / real (length (rows df))),
         Some (Min (temperature ` set (rows df))),
         Some (Max (temperature ` set (rows df))))"
    by (simp add: compute_basic_stats_def series_mean_def series_min_Min series_max_Max)
qed

theorem basic_stats_without_precondition_witness:
  "compute_basic_stats [] = (None, None, None)
   \<and> analyze_city_temperature \<lparr>rows = [], extra = []\<rparr> ''Berlin'' = Inl ValueError
   \<and> compute_basic_stats
       [\<lparr>timestamp = 0, city = ''Berlin'', temperature = 4, season = ''winter''\<rparr>,
        \<lparr>timestamp = 1, city = ''Berlin'', temperature = - 2, season = ''winter''\<rparr>,
        \<lparr>timestamp = 2, city = ''Berlin'', temperature = 7, season = ''spring''\<rparr>]
     = (Some 3, Some (- 2), Some 7)"
  using basic_stats_without_precondition [of "\<lparr>rows = [], extra = []\<rparr>" "''Berlin''"]
    basic_stats_without_precondition [of
      "\<lparr>rows =
        [\<lparr>timestamp = 0, city = ''Berlin'', temperature = 4, season = ''winter''\<rparr>,
         \<lparr>timestamp = 1, city = ''Berlin'', temperature = - 2, season = ''winter''\<rparr>,
         \<lparr>timestamp = 2, city = ''Berlin'', temperature = 7, season = ''spring''\<rparr>],
       extra = []\<rparr>" "''Berlin''"]
  by simp





text \<open>The branch of the caller has no path to its second arm.\<close>

lemma trend_branch_never_zero: "trend_branch tr \<noteq> Trend_zero"
  by (simp add: trend_branch_def)

text \<open>
  C3. The caller's branch on the sign of the trend tests \<open>trend > 0\<close> in both of its
  first two arms, so the arm for a zero trend is never taken: for two records of equal
  temperature the trend is 0 and the message written is the one for a negative trend.
\<close>

theorem zero_trend_reported_as_negative:
  "map_sum id (\<lambda>tr. (tr, trend_branch tr))
     (compute_trend
        [\<lparr>timestamp = 0, city = ''Berlin'', temperature = 5, season = ''winter''\<rparr>,
         \<lparr>timestamp = 1, city = ''Berlin'', temperature = 5, season = ''winter''\<rparr>])
   = Inr (0, Trend_negative)"
  by (simp add: compute_trend_def linear_regression_coef_def sxx_def sxy_def trend_branch_def)

section \<open>The effect of the analysis on the caller's frame\<close>

text \<open>
  C9, as stated, fails on a frame of one row with no further columns: after the analysis
  the frame has three more columns.
\<close>

theorem analysis_adds_columns_counterexample:
  "map_sum id (extra \<circ> snd)
     (analyze_city_temperature
        \<lparr>rows = [\<lparr>timestamp = 7, city = ''Berlin'', temperature = 5, season = ''winter''\<rparr>],
         extra = []\<rparr> ''Berlin'')
   = Inr [(''rolling_mean'', FloatCol [Some 5]), (''rolling_std'', FloatCol [None]),
          (''anomaly'', BoolCol [False])]"
  by (simp add: analyze_city_temperature_def Let_def compute_trend_def linear_regression_coef_def
      sxx_def assign_def rolling_mean_column_eq rolling_std_column_eq anomaly_column_eq
      spec_anomalous_def spec_window_def spec_partition_def series_mean_def series_std_def
      compute_basic_stats_def split: prod.splits)

text \<open>
  C9, as the code has it. One analysis call of a non-empty frame leaves the rows of the
  caller's frame as they are and assigns the columns \<open>rolling_mean\<close>, \<open>rolling_std\<close>
  and \<open>anomaly\<close> in that frame, in this order; every column of another name is
  unchanged.
\<close>

theorem analysis_preserves_given_columns:
  assumes "rows df \<noteq> []"
  shows "\<exists>res df'. analyze_city_temperature df c = Inr (res, df')
           \<and> rows df' = rows df
           \<and> extra df' =
               set_column ''anomaly'' (BoolCol (anomaly_column (rows df)))
                 (set_column ''rolling_std'' (FloatCol (rolling_std_column (rows df)))
                   (set_column ''rolling_mean'' (FloatCol (rolling_mean_column (rows df))) (extra df)))
           \<and> (\<forall>name. name \<notin> {''rolling_mean'', ''rolling_std'', ''anomaly''} \<longrightarrow>
                  map_of (extra df') name = map_of (extra df) name)"
proof -
  obtain res where res: "analyze_city_temperature df c =
           Inr (res, assign ''anomaly'' (BoolCol (anomaly_column (rows df)))
                      (assign ''rolling_std'' (FloatCol (rolling_std_column (rows df)))
                        (assign ''rolling_mean'' (FloatCol (rolling_mean_column (rows df))) df)))"
    using analyze_nonempty[OF assms, of c] by blast
  show ?thesis
    unfolding res by (simp add: added_columns) (simp add: assign_def)
qed

theorem analysis_preserves_given_columns_witness:
  "\<exists>res df'.
     analyze_city_temperature
       \<lparr>rows = [\<lparr>timestamp = 7, city = ''Berlin'', temperature = 5, season = ''winter''\<rparr>],
        extra = [(''humidity'', FloatCol [Some 40])]\<rparr> ''Berlin'' = Inr (res, df')
     \<and> rows df' = [\<lparr>timestamp = 7, city = ''Berlin'', temperature = 5, season = ''winter''\<rparr>]
     \<and> extra df' =
         [(''humidity'', FloatCol [Some 40]), (''rolling_mean'', FloatCol [Some 5]),
          (''rolling_std'', FloatCol [None]), (''anomaly'', BoolCol [False])]"
  using analysis_preserves_given_columns [of
       "\<lparr>rows = [\<lparr>timestamp = 7, city = ''Berlin'', temperature = 5, season = ''winter''\<rparr>],
        extra = [(''humidity'', FloatCol [Some 40])]\<rparr>" "''Berlin''"]
  by (simp add: rolling_mean_column_eq rolling_std_column_eq anomaly_column_eq
      spec_anomalous_def spec_window_def spec_partition_def series_mean_def series_std_def)
     blast

section \<open>The current temperature\<close>

lemma number_not_dict: "is_number v \<Longrightarrow> \<not> is_dict v"
  by (cases v) simp_all

text \<open>
  C10, as stated, fails on a response with status code 401 whose body is not JSON: the
  value returned is the dictionary with key \<open>error\<close>, not the one with keys \<open>cod\<close>
  and \<open>message\<close>.
\<close>

theorem error_precedes_status_counterexample:
  "get_current_temperature
     (\<lambda>url params. Response 401 (NotJson (PyException ''Expecting value'')))
     ''Berlin'' ''key''
   = Inr (PDict [(''error'', PStr ''Expecting value'')])
   \<and> PDict [(''error'', PStr ''Expecting value'')] \<noteq> invalid_key_dict"
  by (simp add: get_current_temperature_def try_block_def error_dict_def invalid_key_dict_def)

text \<open>
  C10, as the code has it. Whatever the request does, the function returns a value and
  raises nothing. When the request, the parsing of the body or the extraction of
  \<open>data['main']['temp']\<close> raises, the value is the dictionary with key \<open>error\<close> and the
  text of the exception, whatever the status code; otherwise it is the dictionary with
  keys \<open>cod\<close> and \<open>message\<close> for status code 401, the extracted temperature for
  status code 200, and the dictionary with key \<open>error\<close> and the text
  \<open>Unexpected error occurred.\<close> for any other status code. The value is a dictionary in
  every case but the extracted temperature.
\<close>

theorem get_current_temperature_never_raises:
  assumes "requests_get ''http://api.openweathermap.org/data/2.5/weather''
             [(''q'', city_name), (''appid'', api_key_current), (''units'', ''metric'')] = outcome"
  shows "\<exists>v. get_current_temperature requests_get city_name api_key_current = Inr v
     \<and> (\<forall>e. outcome = RequestFails e \<longrightarrow> v = error_dict (message e))
     \<and> (\<forall>sc e. outcome = Response sc (NotJson e) \<longrightarrow> v = error_dict (message e))
     \<and> (\<forall>d. outcome = Response 401 (Json d) \<longrightarrow> v = invalid_key_dict)
     \<and> (\<forall>d m t. outcome = Response 200 (Json d) \<and> subscript d ''main'' = Inr m
            \<and> subscript m ''temp'' = Inr t \<longrightarrow> v = t)
     \<and> (\<forall>d e. outcome = Response 200 (Json d)
            \<and> (subscript d ''main'' = Inl e
                \<or> (\<exists>m. subscript d ''main'' = Inr m \<and> subscript m ''temp'' = Inl e))
            \<longrightarrow> v = error_dict (message e))
     \<and> (\<forall>sc d. outcome = Response sc (Json d) \<and> sc \<noteq> 200 \<and> sc \<noteq> 401
            \<longrightarrow> v = error_dict ''Unexpected error occurred.'')
     \<and> (is_dict v \<or> (\<exists>d m. outcome = Response 200 (Json d) \<and> subscript d ''main'' = Inr m
            \<and> subscript m ''temp'' = Inr v))
     \<and> (is_number v \<longrightarrow> \<not> is_dict v)"
proof (cases outcome)
  case (RequestFails e)
  then show ?thesis using assms
    by (simp add: get_current_temperature_def try_block_def error_dict_def)
next
  case (Response sc b)
  show ?thesis
  proof (cases b)
    case (NotJson e)
    then show ?thesis using assms Response
      by (simp add: get_current_temperature_def try_block_def error_dict_def)
  next
    case (Json d)
    consider "sc = 401" | "sc = 200" | "sc \<noteq> 401" "sc \<noteq> 200" by blast
    then show ?thesis
    proof cases
      case 1
      then show ?thesis using assms Response Json
        by (simp add: get_current_temperature_def try_block_def invalid_key_dict_def)
    next
      case 2
      show ?thesis
      proof (cases "subscript d ''main''")
        case (Inl e)
        then show ?thesis using assms Response Json 2
          by (simp add: get_current_temperature_def try_block_def error_dict_def)
      next
        case (Inr m)
        then show ?thesis using assms Response Json 2
          by (cases "subscript m ''temp''")
             (simp_all add: get_current_temperature_def try_block_def error_dict_def
                number_not_dict)
      qed
    next
      case 3
      then show ?thesis using assms Response Json
        by (simp add: get_current_temperature_def try_block_def error_dict_def)
    qed
  qed
qed

text \<open>
  A response with status code 200 and a temperature of 21.5 degrees.
\<close>

theorem get_current_temperature_never_raises_witness:
  "get_current_temperature
     (\<lambda>url params. Response 200 (Json (PDict [(''main'', PDict [(''temp'', PFloat 21.5)])])))
     ''Berlin'' ''key'' = Inr (PFloat 21.5)"
  using get_current_temperature_never_raises [of
     "\<lambda>url params. Response 200 (Json (PDict [(''main'', PDict [(''temp'', PFloat 21.5)])]))"
     "''Berlin''" "''key''"
     "Response 200 (Json (PDict [(''main'', PDict [(''temp'', PFloat 21.5)])]))"]
  by auto

end
